theory Spec2Isabelle
  imports Complex_Main "HOL-Library.Product_Lexorder" "HOL-Library.List_Lexorder" "HOL-Library.Char_ord"
begin

section \<open>Exceptions\<close>

text \<open>
  Exceptions are values. \<open>str\<close> is the text of an exception.
\<close>

datatype error =
  IndexError | IntegrityError | OperationalError | PendingRollbackError | AttributeError
  | ArgumentError | ZeroDivisionError

fun str :: "error \<Rightarrow> string" where
  "str IndexError = ''list index out of range''"
| "str IntegrityError = ''UNIQUE constraint failed''"
| "str OperationalError = ''database error''"
| "str PendingRollbackError = ''This Session's transaction has been rolled back due to a previous exception during flush''"
| "str AttributeError = ''object has no attribute''"
| "str ArgumentError = ''SQL expression element expected''"
| "str ZeroDivisionError = ''division by zero''"

section \<open>The statistics provider\<close>

text \<open>
  The opening explorer of the provider answers one request with a JSON object
  \<^verbatim>\<open>{moves: [{san, uci, white, black, draws, averageRating}], white, black, draws, opening}\<close>.
  Keys that the collector reads with \<^verbatim>\<open>.get(key, default)\<close> or tests with \<^verbatim>\<open>in\<close> may be
  absent and are options; keys that it reads with \<^verbatim>\<open>move['san']\<close> are fields of the entry.
  Python integers are \<^typ>\<open>int\<close>. Python floats are idealised as exact rationals.
\<close>

record move_entry =
  san :: string
  uci :: string
  mv_white :: int
  mv_black :: int
  mv_draws :: int
  averageRating :: "int option"

record explorer_stats =
  st_moves :: "move_entry list option"
  st_white :: "int option"
  st_black :: "int option"
  st_draws :: "int option"
  st_opening :: "(string option \<times> string option) option"

text \<open>
  A call either raises (transport or schema error) or returns a reply. The provider is the
  sequence of its answers, in call order; each call consumes the next one, and a provider
  with no answer left raises.
\<close>

datatype response = Failure | Reply explorer_stats

type_synonym provider = "response list"

fun get_lichess_games :: "provider \<Rightarrow> response \<times> provider" where
  "get_lichess_games [] = (Failure, [])"
| "get_lichess_games (r # P) = (r, P)"

definition dict_get :: "'a option \<Rightarrow> 'a \<Rightarrow> 'a" where
  "dict_get v d = (case v of None \<Rightarrow> d | Some x \<Rightarrow> x)"

section \<open>The discovery engine (collect\_openings.py)\<close>

text \<open>The dictionaries built by \<^verbatim>\<open>get_popular_openings\<close>, one per first move.\<close>

record first_move =
  fm_move :: string
  fm_uci :: string
  fm_white_wins :: int
  fm_black_wins :: int
  fm_draws :: int
  fm_total_games :: int
  fm_average_rating :: int
  fm_win_rate_white :: rat

definition first_move_of :: "move_entry \<Rightarrow> first_move" where
  "first_move_of m =
     \<lparr> fm_move = san m, fm_uci = uci m,
       fm_white_wins = mv_white m, fm_black_wins = mv_black m, fm_draws = mv_draws m,
       fm_total_games = mv_white m + mv_black m + mv_draws m,
       fm_average_rating = dict_get (averageRating m) 0,
       fm_win_rate_white =
         (if mv_white m + mv_black m + mv_draws m > 0
          then of_int (mv_white m) / of_int (mv_white m + mv_black m + mv_draws m) else 0) \<rparr>"

text \<open>
  \<^verbatim>\<open>get_popular_openings\<close>: one provider call; an exception is caught and gives the
  list built so far, which is empty when the call itself raised.
\<close>

definition get_popular_openings :: "provider \<Rightarrow> first_move list \<times> provider" where
  "get_popular_openings P =
     (case get_lichess_games P of
        (Failure, P') \<Rightarrow> ([], P')
      | (Reply stats, P') \<Rightarrow>
          (case st_moves stats of
             None \<Rightarrow> ([], P')
           | Some ms \<Rightarrow> (map first_move_of ms, P')))"

text \<open>
  The dictionary returned by \<^verbatim>\<open>get_opening_continuations\<close>; the empty dictionary of the
  exception handler is \<open>None\<close>. The sampled games and the timestamp are not read by the
  discovery and are left out.
\<close>

record continuation_stats =
  oc_moves :: "string list"
  oc_opening :: "(string \<times> string) option"
  oc_white_wins :: int
  oc_black_wins :: int
  oc_draws :: int
  oc_total_games :: int
  oc_continuations :: "move_entry list"

definition opening_info_of :: "(string option \<times> string option) option \<Rightarrow> (string \<times> string) option" where
  "opening_info_of op =
     (case op of None \<Rightarrow> None
      | Some (e, n) \<Rightarrow> Some (dict_get e [], dict_get n []))"

definition get_opening_continuations ::
  "string list \<Rightarrow> provider \<Rightarrow> continuation_stats option \<times> provider" where
  "get_opening_continuations moves P =
     (case get_lichess_games P of
        (Failure, P') \<Rightarrow> (None, P')
      | (Reply stats, P') \<Rightarrow>
          (Some \<lparr> oc_moves = moves,
                  oc_opening = opening_info_of (st_opening stats),
                  oc_white_wins = dict_get (st_white stats) 0,
                  oc_black_wins = dict_get (st_black stats) 0,
                  oc_draws = dict_get (st_draws stats) 0,
                  oc_total_games =
                    dict_get (st_white stats) 0 + dict_get (st_black stats) 0
                      + dict_get (st_draws stats) 0,
                  oc_continuations = dict_get (st_moves stats) [] \<rparr>, P'))"

text \<open>One discovered line, as appended to \<^verbatim>\<open>discovered_openings\<close> (without its timestamp).\<close>

record opening_data =
  od_moves_sequence :: "string list"
  od_eco_code :: string
  od_opening_name :: string
  od_white_wins :: int
  od_black_wins :: int
  od_draws :: int
  od_total_games :: int
  od_win_rate_white :: rat
  od_win_rate_black :: rat
  od_draw_rate :: rat
  od_performance_score :: rat

text \<open>\<^verbatim>\<open>count / total_games if total_games > 0 else 0\<close>\<close>

definition rate :: "int \<Rightarrow> int \<Rightarrow> rat" where
  "rate count total_games = (if total_games > 0 then of_int count / of_int total_games else 0)"

text \<open>
  Python's \<^verbatim>\<open>/\<close> on integers raises on a zero divisor. \<open>rate_expression\<close> is the same
  expression evaluated with this division: an exception of the division would leave the
  discovery, which does not catch it.
\<close>

definition truediv :: "int \<Rightarrow> int \<Rightarrow> error + rat" where
  "truediv a b = (if b = 0 then Inl ZeroDivisionError else Inr (of_int a / of_int b))"

definition rate_expression :: "int \<Rightarrow> int \<Rightarrow> error + rat" where
  "rate_expression count total_games =
     (if total_games > 0 then truediv count total_games else Inr 0)"

definition performance_score :: "rat \<Rightarrow> rat \<Rightarrow> rat \<Rightarrow> rat" where
  "performance_score win_rate_white win_rate_black draw_rate =
     (win_rate_white * 0.4 + (1 - win_rate_black) * 0.4 + draw_rate * 0.2) * 100"

definition make_opening_data :: "string list \<Rightarrow> continuation_stats \<Rightarrow> opening_data" where
  "make_opening_data moves_sequence opening_stats =
     (let total_games = oc_total_games opening_stats;
          win_rate_white = rate (oc_white_wins opening_stats) total_games;
          win_rate_black = rate (oc_black_wins opening_stats) total_games;
          draw_rate = rate (oc_draws opening_stats) total_games
      in \<lparr> od_moves_sequence = moves_sequence,
           od_eco_code = (case oc_opening opening_stats of None \<Rightarrow> [] | Some (e, n) \<Rightarrow> e),
           od_opening_name = (case oc_opening opening_stats of None \<Rightarrow> [] | Some (e, n) \<Rightarrow> n),
           od_white_wins = oc_white_wins opening_stats,
           od_black_wins = oc_black_wins opening_stats,
           od_draws = oc_draws opening_stats,
           od_total_games = total_games,
           od_win_rate_white = win_rate_white,
           od_win_rate_black = win_rate_black,
           od_draw_rate = draw_rate,
           od_performance_score = performance_score win_rate_white win_rate_black draw_rate \<rparr>)"

text \<open>
  The inner loop over the continuations of one first move. It returns when the list is
  exhausted or at the \<^verbatim>\<open>break\<close> that follows an append.
\<close>

fun explore_continuations ::
  "int \<Rightarrow> string \<Rightarrow> move_entry list \<Rightarrow> provider \<Rightarrow> opening_data list
     \<Rightarrow> provider \<times> opening_data list" where
  "explore_continuations max_openings fm [] P discovered = (P, discovered)"
| "explore_continuations max_openings fm (c # cs) P discovered =
     (case get_opening_continuations [fm, san c] P of
        (None, P') \<Rightarrow> explore_continuations max_openings fm cs P' discovered
      | (Some opening_stats, P') \<Rightarrow>
          if oc_total_games opening_stats < 100
          then explore_continuations max_openings fm cs P' discovered
          else
            (let discovered' = discovered @ [make_opening_data [fm, san c] opening_stats]
             in if int (length discovered') \<ge> max_openings then (P', discovered')
                else explore_continuations max_openings fm cs P' discovered'))"

text \<open>
  The outer loop over the first moves. A first move whose statistics could not be fetched
  is skipped by \<^verbatim>\<open>continue\<close>, which also skips the test of the outer \<^verbatim>\<open>break\<close>.
\<close>

fun explore_first_moves ::
  "int \<Rightarrow> first_move list \<Rightarrow> provider \<Rightarrow> opening_data list
     \<Rightarrow> provider \<times> opening_data list" where
  "explore_first_moves max_openings [] P discovered = (P, discovered)"
| "explore_first_moves max_openings (f # fs) P discovered =
     (case get_opening_continuations [fm_move f] P of
        (None, P') \<Rightarrow> explore_first_moves max_openings fs P' discovered
      | (Some second_move_stats, P') \<Rightarrow>
          (case explore_continuations max_openings (fm_move f)
                  (take 5 (oc_continuations second_move_stats)) P' discovered of
             (P'', discovered') \<Rightarrow>
               if int (length discovered') \<ge> max_openings then (P'', discovered')
               else explore_first_moves max_openings fs P'' discovered'))"

text \<open>Python's \<^verbatim>\<open>xs[:n]\<close>: a negative \<open>n\<close> counts from the end.\<close>

definition slice_to :: "int \<Rightarrow> 'a list \<Rightarrow> 'a list" where
  "slice_to n xs = (if n \<ge> 0 then take (nat n) xs else take (length xs - nat (- n)) xs)"

text \<open>
  \<^verbatim>\<open>xs.sort(key=k, reverse=True)\<close>: descending by key, elements with equal keys keeping
  their order.
\<close>

definition sort_reverse :: "('a \<Rightarrow> 'k::linorder) \<Rightarrow> 'a list \<Rightarrow> 'a list" where
  "sort_reverse k xs = rev (sort_key k (rev xs))"

definition discover_openings_tree :: "int \<Rightarrow> provider \<Rightarrow> opening_data list" where
  "discover_openings_tree max_openings P =
     (case get_popular_openings P of
        (first_moves, P') \<Rightarrow>
          (case explore_first_moves max_openings (take 8 first_moves) P' [] of
             (P'', discovered_openings) \<Rightarrow>
               slice_to max_openings
                 (sort_reverse (\<lambda>x. (od_performance_score x, od_total_games x))
                    discovered_openings)))"

section \<open>The database (database/models.py)\<close>

text \<open>
  One record per mapped class, one field per column that an operation below reads or
  writes. A primary key is \<open>None\<close> on an object that has not been flushed. Timestamps
  are integers (seconds); floats are rationals.
\<close>

record Opening =
  o_id :: "int option"
  o_eco_code :: string
  o_name :: string
  o_moves_sequence :: "string list"
  o_popularity_rank :: int
  o_is_active :: bool

record OpeningStatistic =
  os_id :: "int option"
  os_opening_id :: "int option"
  os_white_wins :: int
  os_black_wins :: int
  os_draws :: int
  os_total_games :: int
  os_win_rate_white :: rat
  os_win_rate_black :: rat
  os_draw_rate :: rat
  os_performance_score :: rat
  os_rating_range :: "string option"
  os_time_control :: "string option"
  os_date_range_start :: "int option"
  os_date_range_end :: "int option"
  os_average_rating :: "int option"
  os_average_game_length :: "int option"
  os_frequency_rank :: "int option"
  os_collected_at :: int
  os_data_source :: "string option"

record DataUpdateLog =
  l_id :: "int option"
  l_operation_type :: string
  l_status :: string
  l_openings_processed :: int
  l_statistics_updated :: int
  l_started_at :: int
  l_completed_at :: "int option"
  l_duration_seconds :: "rat option"
  l_error_message :: "string option"

record TierListEntry =
  tl_id :: "int option"
  tl_opening_id :: int
  tl_tier_rank :: string
  tl_tier_position :: int
  tl_rating_range :: "string option"
  tl_time_control :: "string option"
  tl_user_id :: "string option"
  tl_created_at :: int
  tl_updated_at :: int

record database =
  openings :: "Opening list"
  opening_statistics :: "OpeningStatistic list"
  data_update_logs :: "DataUpdateLog list"
  tier_list_entries :: "TierListEntry list"

text \<open>The two properties of \<^verbatim>\<open>OpeningStatistic\<close>.\<close>

definition win_rate_for_white :: "OpeningStatistic \<Rightarrow> rat" where
  "win_rate_for_white s =
     (if os_total_games s = 0 then 0
      else (of_int (os_white_wins s) + of_int (os_draws s) * 0.5) / of_int (os_total_games s))"

definition win_rate_for_black :: "OpeningStatistic \<Rightarrow> rat" where
  "win_rate_for_black s =
     (if os_total_games s = 0 then 0
      else (of_int (os_black_wins s) + of_int (os_draws s) * 0.5) / of_int (os_total_games s))"

section \<open>Sessions\<close>

text \<open>
  A session holds what the database has committed, the view of the open transaction
  (the committed rows with every flushed change), and whether that transaction is still
  usable. After a flush that the database rejected, the session has rolled the
  transaction back by itself and is inactive: until \<^verbatim>\<open>rollback()\<close> is called, every
  further statement on it, \<^verbatim>\<open>commit()\<close> included, raises.
\<close>

record session =
  committed :: database
  working :: database
  active :: bool

definition get_session :: "database \<Rightarrow> session" where
  "get_session db = \<lparr> committed = db, working = db, active = True \<rparr>"

definition commit :: "session \<Rightarrow> error + session" where
  "commit s = (if active s then Inr (s\<lparr>committed := working s\<rparr>) else Inl PendingRollbackError)"

definition rollback :: "session \<Rightarrow> session" where
  "rollback s = s\<lparr>working := committed s, active := True\<rparr>"

definition flush_failed :: "session \<Rightarrow> session" where
  "flush_failed s = s\<lparr>working := committed s, active := False\<rparr>"

text \<open>
  The key that the database generates for a row inserted without one: one more than the
  largest key of the table.
\<close>

definition generated_id :: "int option list \<Rightarrow> int" where
  "generated_id ids = fold max (map (\<lambda>i. dict_get i 0) ids) 0 + 1"

text \<open>
  The INSERTs of a flush, in order: each new object gets its key; a key that the table
  already holds is rejected by the primary-key constraint.
\<close>

fun insert_rows ::
  "('a \<Rightarrow> int option) \<Rightarrow> (int \<Rightarrow> 'a \<Rightarrow> 'a) \<Rightarrow> 'a list \<Rightarrow> 'a list \<Rightarrow> error + 'a list" where
  "insert_rows key set_key table [] = Inr table"
| "insert_rows key set_key table (x # xs) =
     (let i = (case key x of None \<Rightarrow> generated_id (map key table) | Some k \<Rightarrow> k)
      in if Some i \<in> set (map key table) then Inl IntegrityError
         else insert_rows key set_key (table @ [set_key i x]) xs)"

definition insert_openings :: "Opening list \<Rightarrow> Opening list \<Rightarrow> error + Opening list" where
  "insert_openings = insert_rows o_id (\<lambda>i x. x\<lparr>o_id := Some i\<rparr>)"

definition insert_statistics ::
  "OpeningStatistic list \<Rightarrow> OpeningStatistic list \<Rightarrow> error + OpeningStatistic list" where
  "insert_statistics = insert_rows os_id (\<lambda>i x. x\<lparr>os_id := Some i\<rparr>)"

definition insert_logs :: "DataUpdateLog list \<Rightarrow> DataUpdateLog list \<Rightarrow> error + DataUpdateLog list" where
  "insert_logs = insert_rows l_id (\<lambda>i x. x\<lparr>l_id := Some i\<rparr>)"

definition insert_entries :: "TierListEntry list \<Rightarrow> TierListEntry list \<Rightarrow> error + TierListEntry list" where
  "insert_entries = insert_rows tl_id (\<lambda>i x. x\<lparr>tl_id := Some i\<rparr>)"

section \<open>The persistence layer (data\_processor.py)\<close>

text \<open>
  One object of the snapshot file. \<^verbatim>\<open>process_opening_data\<close> reads every key with
  \<^verbatim>\<open>.get(key, default)\<close>, so every key may be absent.
\<close>

record json_opening =
  j_moves_sequence :: "string list option"
  j_eco_code :: "string option"
  j_opening_name :: "string option"
  j_white_wins :: "int option"
  j_black_wins :: "int option"
  j_draws :: "int option"
  j_total_games :: "int option"
  j_win_rate_white :: "rat option"
  j_win_rate_black :: "rat option"
  j_draw_rate :: "rat option"
  j_performance_score :: "rat option"
  j_collected_at :: "int option"

text \<open>
  The object that \<^verbatim>\<open>save_openings_data\<close> writes for a discovered line and that
  \<^verbatim>\<open>load_json_data\<close> reads back, with the time at which the line was collected.
\<close>

definition json_of :: "int \<Rightarrow> opening_data \<Rightarrow> json_opening" where
  "json_of collected d =
     \<lparr> j_moves_sequence = Some (od_moves_sequence d), j_eco_code = Some (od_eco_code d),
       j_opening_name = Some (od_opening_name d), j_white_wins = Some (od_white_wins d),
       j_black_wins = Some (od_black_wins d), j_draws = Some (od_draws d),
       j_total_games = Some (od_total_games d),
       j_win_rate_white = Some (od_win_rate_white d),
       j_win_rate_black = Some (od_win_rate_black d), j_draw_rate = Some (od_draw_rate d),
       j_performance_score = Some (od_performance_score d),
       j_collected_at = Some collected \<rparr>"

text \<open>The decimal digits of a number, for \<^verbatim>\<open>f"Unknown Opening {i}"\<close>.\<close>

fun decimal :: "nat \<Rightarrow> string" where
  "decimal n = (if n < 10 then [char_of (48 + n)] else decimal (n div 10) @ [char_of (48 + n mod 10)])"

declare decimal.simps [simp del]

text \<open>
  \<^verbatim>\<open>process_opening_data\<close>: for the i-th object, counted from 1, an opening and a
  statistic that copies the counts, the rates and the score of the object; a missing key
  gives 0, and a missing time the clock.
\<close>

definition opening_of :: "nat \<Rightarrow> json_opening \<Rightarrow> Opening" where
  "opening_of i data =
     \<lparr> o_id = None, o_eco_code = dict_get (j_eco_code data) [],
       o_name = dict_get (j_opening_name data) (''Unknown Opening '' @ decimal i),
       o_moves_sequence = dict_get (j_moves_sequence data) [],
       o_popularity_rank = int i, o_is_active = True \<rparr>"

definition statistic_of :: "int \<Rightarrow> json_opening \<Rightarrow> OpeningStatistic" where
  "statistic_of now data =
     \<lparr> os_id = None, os_opening_id = None,
       os_white_wins = dict_get (j_white_wins data) 0,
       os_black_wins = dict_get (j_black_wins data) 0,
       os_draws = dict_get (j_draws data) 0,
       os_total_games = dict_get (j_total_games data) 0,
       os_win_rate_white = dict_get (j_win_rate_white data) 0,
       os_win_rate_black = dict_get (j_win_rate_black data) 0,
       os_draw_rate = dict_get (j_draw_rate data) 0,
       os_performance_score = dict_get (j_performance_score data) 0,
       os_rating_range = Some ''all'', os_time_control = Some ''all'',
       os_date_range_start = None, os_date_range_end = None, os_average_rating = None,
       os_average_game_length = None, os_frequency_rank = None,
       os_collected_at = dict_get (j_collected_at data) now,
       os_data_source = None \<rparr>"

definition process_opening_data ::
  "int \<Rightarrow> json_opening list \<Rightarrow> Opening list \<times> OpeningStatistic list" where
  "process_opening_data now raw_data =
     (map (\<lambda>(i, data). opening_of i data) (enumerate 1 raw_data),
      map (statistic_of now) raw_data)"

text \<open>
  \<^verbatim>\<open>for i, statistic in enumerate(statistics): statistic.opening_id = openings[i].id\<close>;
  \<^verbatim>\<open>openings[i]\<close> raises when there are more statistics than openings.
\<close>

fun link :: "Opening list \<Rightarrow> OpeningStatistic list \<Rightarrow> error + OpeningStatistic list" where
  "link ops [] = Inr []"
| "link [] (s # ss) = Inl IndexError"
| "link (opening # ops) (s # ss) =
     (case link ops ss of
        Inl e \<Rightarrow> Inl e
      | Inr ss' \<Rightarrow> Inr (s\<lparr>os_opening_id := o_id opening\<rparr> # ss'))"

text \<open>What a call does for its caller: it returns a value or lets an exception through.\<close>

datatype 'a outcome = Returned 'a | Raised error

definition set_log :: "int \<Rightarrow> (DataUpdateLog \<Rightarrow> DataUpdateLog) \<Rightarrow> database \<Rightarrow> database" where
  "set_log i f db =
     db\<lparr>data_update_logs := map (\<lambda>l. if l_id l = Some i then f l else l) (data_update_logs db)\<rparr>"

text \<open>
  The \<^verbatim>\<open>except\<close> block of \<^verbatim>\<open>save_to_database\<close>: the log object is marked, then
  \<^verbatim>\<open>session.commit()\<close> comes before \<^verbatim>\<open>session.rollback()\<close>. The commit flushes the
  change of the log and makes the open transaction durable; on an inactive session it
  raises, and the exception leaves the function.
\<close>

definition save_failed :: "error \<Rightarrow> int \<Rightarrow> int \<Rightarrow> session \<Rightarrow> bool outcome \<times> database" where
  "save_failed e log_id completed s =
     (let mark = (\<lambda>l. l\<lparr>l_status := ''error'', l_error_message := Some (str e),
                         l_completed_at := Some completed\<rparr>)
      in case commit (if active s then s\<lparr>working := set_log log_id mark (working s)\<rparr> else s) of
           Inl e' \<Rightarrow> (Raised e', committed s)
         | Inr s' \<Rightarrow> (Returned False, committed (rollback s')))"

text \<open>
  \<^verbatim>\<open>save_to_database\<close>, with the clock read at the start and at the end of the run.
  The result is the value for the caller and the committed database.
\<close>

definition save_to_database ::
  "int \<Rightarrow> int \<Rightarrow> Opening list \<Rightarrow> OpeningStatistic list \<Rightarrow> database
     \<Rightarrow> bool outcome \<times> database" where
  "save_to_database started completed new_openings statistics db =
     (let s0 = get_session db;
          update_log = \<lparr> l_id = None, l_operation_type = ''initial_load'',
                         l_status = ''in_progress'', l_openings_processed = 0,
                         l_statistics_updated = 0, l_started_at = started,
                         l_completed_at = None, l_duration_seconds = None,
                         l_error_message = None \<rparr>;
          log_id = generated_id (map l_id (data_update_logs (working s0)))
      in case insert_logs (data_update_logs (working s0)) [update_log] of
           Inl e \<Rightarrow> save_failed e log_id completed (flush_failed s0)
         | Inr logs \<Rightarrow>
      (case commit (s0\<lparr>working := (working s0)\<lparr>data_update_logs := logs\<rparr>\<rparr>) of
           Inl e \<Rightarrow> save_failed e log_id completed s0
         | Inr s1 \<Rightarrow>
      (case commit (s1\<lparr>working := (working s1)\<lparr>opening_statistics := [], openings := []\<rparr>\<rparr>) of
           Inl e \<Rightarrow> save_failed e log_id completed s1
         | Inr s2 \<Rightarrow>
      (case insert_openings (openings (working s2)) new_openings of
           Inl e \<Rightarrow> save_failed e log_id completed (flush_failed s2)
         | Inr table \<Rightarrow>
      (let s3 = s2\<lparr>working := (working s2)\<lparr>openings := table\<rparr>\<rparr>;
           flushed = drop (length (openings (working s2))) table
       in case link flushed statistics of
            Inl e \<Rightarrow> save_failed e log_id completed s3
          | Inr linked \<Rightarrow>
      (case insert_statistics (opening_statistics (working s3)) linked of
            Inl e \<Rightarrow> save_failed e log_id completed (flush_failed s3)
          | Inr stats \<Rightarrow>
      (let finish = (\<lambda>l. l\<lparr>l_status := ''success'', l_completed_at := Some completed,
                           l_duration_seconds := Some (of_int (completed - l_started_at l)),
                           l_openings_processed := int (length new_openings),
                           l_statistics_updated := int (length statistics)\<rparr>)
       in case commit (s3\<lparr>working := set_log log_id finish
                                        ((working s3)\<lparr>opening_statistics := stats\<rparr>)\<rparr>) of
            Inl e \<Rightarrow> save_failed e log_id completed s3
          | Inr s4 \<Rightarrow> (Returned True, committed s4))))))))"

section \<open>The query layer (api/main.py)\<close>

text \<open>
  Values of a column, in the order that \<^verbatim>\<open>ORDER BY\<close> uses: \<^verbatim>\<open>NULL\<close> first, then
  numbers, then text.
\<close>

datatype sql_value = Null | Num rat | Text string

fun sql_le :: "sql_value \<Rightarrow> sql_value \<Rightarrow> bool" where
  "sql_le Null v = True"
| "sql_le (Num a) Null = False"
| "sql_le (Num a) (Num b) = (a \<le> b)"
| "sql_le (Num a) (Text t) = True"
| "sql_le (Text s) (Text t) = (s \<le> t)"
| "sql_le (Text s) v = False"

text \<open>
  \<^verbatim>\<open>ORDER BY key DESC\<close>. The engine leaves the order of rows with equal keys open; the
  model keeps them in the order of the unsorted rows.
\<close>

fun insert_desc :: "('a \<Rightarrow> sql_value) \<Rightarrow> 'a \<Rightarrow> 'a list \<Rightarrow> 'a list" where
  "insert_desc k x [] = [x]"
| "insert_desc k x (y # ys) = (if sql_le (k y) (k x) then x # y # ys else y # insert_desc k x ys)"

definition order_by_desc :: "('a \<Rightarrow> sql_value) \<Rightarrow> 'a list \<Rightarrow> 'a list" where
  "order_by_desc k xs = foldr (insert_desc k) xs []"

text \<open>\<^verbatim>\<open>LIMIT n\<close>; a negative \<open>n\<close> is no limit.\<close>

definition sql_limit :: "int \<Rightarrow> 'a list \<Rightarrow> 'a list" where
  "sql_limit n xs = (if n < 0 then xs else take (nat n) xs)"

definition opt_int :: "int option \<Rightarrow> sql_value" where
  "opt_int v = (case v of None \<Rightarrow> Null | Some i \<Rightarrow> Num (of_int i))"

definition opt_text :: "string option \<Rightarrow> sql_value" where
  "opt_text v = (case v of None \<Rightarrow> Null | Some t \<Rightarrow> Text t)"

text \<open>The columns of \<^verbatim>\<open>OpeningStatistic\<close>.\<close>

datatype column =
  C_id | C_opening_id | C_white_wins | C_black_wins | C_draws | C_total_games
  | C_win_rate_white | C_win_rate_black | C_draw_rate | C_performance_score
  | C_rating_range | C_time_control | C_date_range_start | C_date_range_end
  | C_average_rating | C_average_game_length | C_frequency_rank | C_collected_at
  | C_data_source

fun column_value :: "column \<Rightarrow> OpeningStatistic \<Rightarrow> sql_value" where
  "column_value C_id s = opt_int (os_id s)"
| "column_value C_opening_id s = opt_int (os_opening_id s)"
| "column_value C_white_wins s = Num (of_int (os_white_wins s))"
| "column_value C_black_wins s = Num (of_int (os_black_wins s))"
| "column_value C_draws s = Num (of_int (os_draws s))"
| "column_value C_total_games s = Num (of_int (os_total_games s))"
| "column_value C_win_rate_white s = Num (os_win_rate_white s)"
| "column_value C_win_rate_black s = Num (os_win_rate_black s)"
| "column_value C_draw_rate s = Num (os_draw_rate s)"
| "column_value C_performance_score s = Num (os_performance_score s)"
| "column_value C_rating_range s = opt_text (os_rating_range s)"
| "column_value C_time_control s = opt_text (os_time_control s)"
| "column_value C_date_range_start s = opt_int (os_date_range_start s)"
| "column_value C_date_range_end s = opt_int (os_date_range_end s)"
| "column_value C_average_rating s = opt_int (os_average_rating s)"
| "column_value C_average_game_length s = opt_int (os_average_game_length s)"
| "column_value C_frequency_rank s = opt_int (os_frequency_rank s)"
| "column_value C_collected_at s = Num (of_int (os_collected_at s))"
| "column_value C_data_source s = opt_text (os_data_source s)"

text \<open>
  The names that the body of the class \<^verbatim>\<open>OpeningStatistic\<close> declares: its columns, its
  two properties, and the relationship and special names, which are no column expressions.
\<close>

datatype class_attribute = Col column | Prop | Other

definition class_attributes :: "(string \<times> class_attribute) list" where
  "class_attributes =
     [(''id'', Col C_id), (''opening_id'', Col C_opening_id),
      (''white_wins'', Col C_white_wins), (''black_wins'', Col C_black_wins),
      (''draws'', Col C_draws), (''total_games'', Col C_total_games),
      (''win_rate_white'', Col C_win_rate_white), (''win_rate_black'', Col C_win_rate_black),
      (''draw_rate'', Col C_draw_rate), (''performance_score'', Col C_performance_score),
      (''rating_range'', Col C_rating_range), (''time_control'', Col C_time_control),
      (''date_range_start'', Col C_date_range_start), (''date_range_end'', Col C_date_range_end),
      (''average_rating'', Col C_average_rating),
      (''average_game_length'', Col C_average_game_length),
      (''frequency_rank'', Col C_frequency_rank), (''collected_at'', Col C_collected_at),
      (''data_source'', Col C_data_source),
      (''win_rate_for_white'', Prop), (''win_rate_for_black'', Prop),
      (''opening'', Other), (''__tablename__'', Other), (''__table_args__'', Other),
      (''__repr__'', Other)]"

text \<open>
  The class also has the names that it inherits from the declarative base and from
  Python's \<^verbatim>\<open>object\<close> (\<^verbatim>\<open>metadata\<close>, \<^verbatim>\<open>registry\<close>, \<^verbatim>\<open>__init__\<close>, ...). They come
  from the library and not from this repository, so they are a parameter, \<open>inherited\<close>;
  none of them is a column expression. A name declared in the class body hides an
  inherited one.
\<close>

definition class_getattr :: "string list \<Rightarrow> string \<Rightarrow> class_attribute option" where
  "class_getattr inherited name =
     (case map_of class_attributes name of
        Some a \<Rightarrow> Some a
      | None \<Rightarrow> if name \<in> set inherited then Some Other else None)"

text \<open>\<^verbatim>\<open>getattr(OpeningStatistic, name, OpeningStatistic.performance_score)\<close>\<close>

definition sort_field :: "string list \<Rightarrow> string \<Rightarrow> class_attribute" where
  "sort_field inherited name =
     (case class_getattr inherited name of None \<Rightarrow> Col C_performance_score | Some a \<Rightarrow> a)"

text \<open>
  \<^verbatim>\<open>getattr(statistic, metric)\<close> on a row, with no default: a name that the object does
  not have raises.
\<close>

definition getattr_statistic ::
  "string list \<Rightarrow> OpeningStatistic \<Rightarrow> string \<Rightarrow> error + sql_value" where
  "getattr_statistic inherited s name =
     (case class_getattr inherited name of
        None \<Rightarrow> Inl AttributeError
      | Some (Col c) \<Rightarrow> Inr (column_value c s)
      | Some Prop \<Rightarrow>
          Inr (Num (if name = ''win_rate_for_white'' then win_rate_for_white s
                    else win_rate_for_black s))
      | Some Other \<Rightarrow> Inr Null)"

text \<open>\<^verbatim>\<open>Opening.id == OpeningStatistic.opening_id\<close>\<close>

definition joined :: "Opening \<Rightarrow> OpeningStatistic \<Rightarrow> bool" where
  "joined x s = (case o_id x of None \<Rightarrow> False | Some i \<Rightarrow> os_opening_id s = Some i)"

text \<open>The rows of a join, the openings in table order and under each its statistics.\<close>

definition join_statistics :: "database \<Rightarrow> (Opening \<times> OpeningStatistic) list" where
  "join_statistics db =
     concat (map (\<lambda>x. map (\<lambda>s. (x, s)) (filter (joined x) (opening_statistics db))) (openings db))"

fun collect :: "('a \<Rightarrow> error + 'b) \<Rightarrow> 'a list \<Rightarrow> error + 'b list" where
  "collect f [] = Inr []"
| "collect f (x # xs) =
     (case f x of
        Inl e \<Rightarrow> Inl e
      | Inr y \<Rightarrow> (case collect f xs of Inl e \<Rightarrow> Inl e | Inr ys \<Rightarrow> Inr (y # ys)))"

text \<open>
  \<^verbatim>\<open>get_top_performers\<close>. A sort expression that is no column makes the query raise.
\<close>

definition get_top_performers ::
  "string list \<Rightarrow> database \<Rightarrow> int \<Rightarrow> string
     \<Rightarrow> error + (Opening \<times> OpeningStatistic \<times> sql_value) list" where
  "get_top_performers inherited db limit metric =
     (case sort_field inherited metric of
        Col c \<Rightarrow>
          (let results =
                 sql_limit limit
                   (order_by_desc (\<lambda>(x, s). column_value c s)
                      (filter (\<lambda>(x, s). o_is_active x \<and> os_total_games s \<ge> 100)
                         (join_statistics db)))
           in collect (\<lambda>(x, s). case getattr_statistic inherited s metric of
                                   Inl e \<Rightarrow> Inl e
                                 | Inr v \<Rightarrow> Inr (x, s, v)) results)
      | Prop \<Rightarrow> Inl ArgumentError
      | Other \<Rightarrow> Inl ArgumentError)"

text \<open>
  The subquery of \<^verbatim>\<open>get_tier_list\<close>: \<^verbatim>\<open>max(collected_at)\<close> of one group of
  \<^verbatim>\<open>GROUP BY opening_id\<close>, over all statistics of the table.
\<close>

fun max_collected_at :: "OpeningStatistic list \<Rightarrow> int option" where
  "max_collected_at [] = None"
| "max_collected_at (s # ss) =
     (case max_collected_at ss of
        None \<Rightarrow> Some (os_collected_at s)
      | Some m \<Rightarrow> Some (max (os_collected_at s) m))"

definition latest_collected_at :: "database \<Rightarrow> int option \<Rightarrow> int option" where
  "latest_collected_at db opening_id =
     max_collected_at (filter (\<lambda>s. os_opening_id s = opening_id) (opening_statistics db))"

text \<open>\<^verbatim>\<open>if rating_range and rating_range != "all"\<close>\<close>

definition filter_given :: "string option \<Rightarrow> bool" where
  "filter_given v = (case v of None \<Rightarrow> False | Some r \<Rightarrow> r \<noteq> [] \<and> r \<noteq> ''all'')"

definition tier_entry_for ::
  "database \<Rightarrow> Opening \<Rightarrow> string option \<Rightarrow> string option \<Rightarrow> string option
     \<Rightarrow> TierListEntry option" where
  "tier_entry_for db x rating_range time_control user_id =
     find (\<lambda>e. Some (tl_opening_id e) = o_id x \<and> tl_rating_range e = rating_range
                \<and> tl_time_control e = time_control \<and> tl_user_id e = user_id)
       (tier_list_entries db)"

definition get_tier_list ::
  "database \<Rightarrow> string option \<Rightarrow> string option \<Rightarrow> string option
     \<Rightarrow> (Opening \<times> OpeningStatistic \<times> string option \<times> int option) list" where
  "get_tier_list db rating_range time_control user_id =
     (let query = filter (\<lambda>(x, s). o_is_active x) (join_statistics db);
          query = (if filter_given rating_range
                   then filter (\<lambda>(x, s). os_rating_range s = rating_range) query else query);
          query = (if filter_given time_control
                   then filter (\<lambda>(x, s). os_time_control s = time_control) query else query);
          query = filter (\<lambda>(x, s). latest_collected_at db (os_opening_id s)
                                     = Some (os_collected_at s)) query;
          results = take 50 (order_by_desc (\<lambda>(x, s). Num (os_performance_score s)) query)
      in map (\<lambda>(x, s).
                case tier_entry_for db x rating_range time_control user_id of
                  None \<Rightarrow> (x, s, None, None)
                | Some tier_entry \<Rightarrow>
                    (x, s, Some (tl_tier_rank tier_entry), Some (tl_tier_position tier_entry)))
           results)"

section \<open>The tier-list overlay (api/main.py)\<close>

record TierListUpdate =
  u_opening_id :: int
  u_tier_rank :: string
  u_tier_position :: int

datatype http_error = HTTPException nat string

definition same_key :: "int \<Rightarrow> string \<Rightarrow> string \<Rightarrow> string \<Rightarrow> TierListEntry \<Rightarrow> bool" where
  "same_key opening_id rating_range time_control user_id e =
     (tl_opening_id e = opening_id \<and> tl_rating_range e = Some rating_range
      \<and> tl_time_control e = Some time_control \<and> tl_user_id e = Some user_id)"

fun update_first :: "('a \<Rightarrow> bool) \<Rightarrow> ('a \<Rightarrow> 'a) \<Rightarrow> 'a list \<Rightarrow> 'a list" where
  "update_first p f [] = []"
| "update_first p f (x # xs) = (if p x then f x # xs else x # update_first p f xs)"

text \<open>
  The loop of \<^verbatim>\<open>update_tier_list\<close> on the unit of work of its session: the rows of the
  table, with the changes made to the objects loaded from them, and the objects added and
  not yet inserted. The session is made by \<^verbatim>\<open>sessionmaker(autocommit=False, autoflush=False)\<close>,
  so the query for an existing entry does not flush: it reads the rows of the table and
  never the added objects. The database may fail while it serves an update; \<open>fails\<close>
  says for which updates it does.
\<close>

fun apply_updates ::
  "(TierListUpdate \<Rightarrow> bool) \<Rightarrow> int \<Rightarrow> string \<Rightarrow> string \<Rightarrow> string \<Rightarrow> TierListUpdate list
     \<Rightarrow> TierListEntry list \<Rightarrow> TierListEntry list
     \<Rightarrow> error + (TierListEntry list \<times> TierListEntry list)" where
  "apply_updates fails now rating_range time_control user_id [] rows added = Inr (rows, added)"
| "apply_updates fails now rating_range time_control user_id (u # us) rows added =
     (if fails u then Inl OperationalError
      else
        case find (same_key (u_opening_id u) rating_range time_control user_id) rows of
          Some existing \<Rightarrow>
            apply_updates fails now rating_range time_control user_id us
              (update_first (same_key (u_opening_id u) rating_range time_control user_id)
                 (\<lambda>e. e\<lparr>tl_tier_rank := u_tier_rank u, tl_tier_position := u_tier_position u,
                        tl_updated_at := now\<rparr>) rows)
              added
        | None \<Rightarrow>
            apply_updates fails now rating_range time_control user_id us rows
              (added @ [\<lparr> tl_id = None, tl_opening_id = u_opening_id u,
                          tl_tier_rank = u_tier_rank u, tl_tier_position = u_tier_position u,
                          tl_rating_range = Some rating_range,
                          tl_time_control = Some time_control, tl_user_id = Some user_id,
                          tl_created_at = now, tl_updated_at = now \<rparr>]))"

text \<open>
  \<^verbatim>\<open>update_tier_list\<close>: the loop, then one \<^verbatim>\<open>db.commit()\<close>, which inserts the added
  objects. Any exception is answered by \<^verbatim>\<open>db.rollback()\<close> and an HTTP error 500.
\<close>

definition update_tier_list ::
  "(TierListUpdate \<Rightarrow> bool) \<Rightarrow> int \<Rightarrow> TierListUpdate list \<Rightarrow> string \<Rightarrow> string \<Rightarrow> string
     \<Rightarrow> database \<Rightarrow> (http_error + string) \<times> database" where
  "update_tier_list fails now updates rating_range time_control user_id db =
     (case apply_updates fails now rating_range time_control user_id updates
             (tier_list_entries db) [] of
        Inl e \<Rightarrow> (Inl (HTTPException 500 (''Failed to update tier list: '' @ str e)), db)
      | Inr (rows, added) \<Rightarrow>
          (case insert_entries rows added of
             Inl e \<Rightarrow> (Inl (HTTPException 500 (''Failed to update tier list: '' @ str e)), db)
           | Inr table \<Rightarrow>
               (Inr ''Tier list updated successfully'', db\<lparr>tier_list_entries := table\<rparr>)))"

text \<open>The rows of a key, and the invariant that no key has two.\<close>

definition rows_of_key ::
  "int \<Rightarrow> string \<Rightarrow> string \<Rightarrow> string \<Rightarrow> database \<Rightarrow> TierListEntry list" where
  "rows_of_key opening_id rating_range time_control user_id db =
     filter (same_key opening_id rating_range time_control user_id) (tier_list_entries db)"

definition key_of :: "TierListEntry \<Rightarrow> int \<times> string option \<times> string option \<times> string option" where
  "key_of e = (tl_opening_id e, tl_rating_range e, tl_time_control e, tl_user_id e)"

definition one_entry_per_key :: "database \<Rightarrow> bool" where
  "one_entry_per_key db = distinct (map key_of (tier_list_entries db))"

section \<open>Example data\<close>

definition move :: "string \<Rightarrow> move_entry" where
  "move n = \<lparr> san = n, uci = n, mv_white = 0, mv_black = 0, mv_draws = 0, averageRating = None \<rparr>"

definition reply :: "move_entry list \<Rightarrow> int \<Rightarrow> int \<Rightarrow> int \<Rightarrow> response" where
  "reply ms w b d =
     Reply \<lparr> st_moves = Some ms, st_white = Some w, st_black = Some b, st_draws = Some d,
             st_opening = None \<rparr>"

text \<open>
  A provider that knows the first move e4, its continuation e5, and 550 white wins, 400
  black wins and 50 draws for the line e4 e5.
\<close>

definition example_provider :: provider where
  "example_provider =
     [reply [move ''e4''] 550 400 50, reply [move ''e5''] 550 400 50, reply [] 550 400 50]"


definition example_opening :: Opening where
  "example_opening =
     \<lparr> o_id = None, o_eco_code = ''C20'', o_name = ''King's Pawn Game'',
       o_moves_sequence = [''e4'', ''e5''], o_popularity_rank = 1, o_is_active = True \<rparr>"

definition example_statistic :: OpeningStatistic where
  "example_statistic =
     \<lparr> os_id = None, os_opening_id = None, os_white_wins = 550, os_black_wins = 400,
       os_draws = 50, os_total_games = 1000, os_win_rate_white = 0.55,
       os_win_rate_black = 0.4, os_draw_rate = 0.05, os_performance_score = 47,
       os_rating_range = Some ''all'', os_time_control = Some ''all'',
       os_date_range_start = None, os_date_range_end = None, os_average_rating = None,
       os_average_game_length = None, os_frequency_rank = None, os_collected_at = 10,
       os_data_source = Some ''lichess'' \<rparr>"

text \<open>
  Two objects of a snapshot file: one with no game and the rates 0.55, 0.4 and 0.05, one
  with 1000 games and the rates 0.55, 0.4 and 0.4.
\<close>

definition zero_games_record :: json_opening where
  "zero_games_record =
     \<lparr> j_moves_sequence = Some [''a3'', ''a6''], j_eco_code = Some ''A00'',
       j_opening_name = Some ''Anderssen's Opening'', j_white_wins = Some 0,
       j_black_wins = Some 0, j_draws = Some 0, j_total_games = Some 0,
       j_win_rate_white = Some 0.55, j_win_rate_black = Some 0.4, j_draw_rate = Some 0.05,
       j_performance_score = Some 47, j_collected_at = Some 10 \<rparr>"

definition inconsistent_record :: json_opening where
  "inconsistent_record =
     zero_games_record\<lparr>j_white_wins := Some 550, j_black_wins := Some 400, j_draws := Some 50,
                       j_total_games := Some 1000, j_draw_rate := Some 0.4\<rparr>"

text \<open>A store with one opening and its statistic, as a successful load leaves it.\<close>

definition example_database :: database where
  "example_database =
     \<lparr> openings = [example_opening\<lparr>o_id := Some 1\<rparr>],
       opening_statistics = [example_statistic\<lparr>os_id := Some 1, os_opening_id := Some 1\<rparr>],
       data_update_logs = [], tier_list_entries = [] \<rparr>"

text \<open>
  A store in which the opening has a statistic for the rating range 1600, collected at
  time 10, and one for the rating range 1800, collected at time 20.
\<close>

definition statistic_1600 :: OpeningStatistic where
  "statistic_1600 =
     example_statistic\<lparr>os_id := Some 1, os_opening_id := Some 1,
                        os_rating_range := Some ''1600'', os_collected_at := 10\<rparr>"

definition statistic_1800 :: OpeningStatistic where
  "statistic_1800 =
     example_statistic\<lparr>os_id := Some 2, os_opening_id := Some 1,
                        os_rating_range := Some ''1800'', os_collected_at := 20\<rparr>"

definition two_context_database :: database where
  "two_context_database =
     \<lparr> openings = [example_opening\<lparr>o_id := Some 1\<rparr>],
       opening_statistics = [statistic_1600, statistic_1800],
       data_update_logs = [], tier_list_entries = [] \<rparr>"

definition update_A :: TierListUpdate where
  "update_A = \<lparr> u_opening_id = 7, u_tier_rank = ''A'', u_tier_position = 1 \<rparr>"

definition update_S :: TierListUpdate where
  "update_S = \<lparr> u_opening_id = 7, u_tier_rank = ''S'', u_tier_position = 1 \<rparr>"

definition entry_7 :: "int \<Rightarrow> string \<Rightarrow> TierListEntry" where
  "entry_7 i rank =
     \<lparr> tl_id = Some i, tl_opening_id = 7, tl_tier_rank = rank, tl_tier_position = 1,
       tl_rating_range = Some ''all'', tl_time_control = Some ''all'',
       tl_user_id = Some ''default'', tl_created_at = 5, tl_updated_at = 5 \<rparr>"

definition no_failure :: "TierListUpdate \<Rightarrow> bool" where
  "no_failure u = False"

text \<open>
  Names that a class mapped through \<^verbatim>\<open>declarative_base()\<close> inherits, as one value of the
  parameter \<open>inherited\<close>.
\<close>

definition declarative_base_names :: "string list" where
  "declarative_base_names =
     [''metadata'', ''registry'', ''__init__'', ''__mapper__'', ''__table__'', ''__class__'',
      ''__dict__'', ''__doc__'', ''__module__'', ''__weakref__'']"

text \<open>A store with the opening 7 and no tier-list entry.\<close>

definition tier_database :: database where
  "tier_database =
     \<lparr> openings = [example_opening\<lparr>o_id := Some 7\<rparr>],
       opening_statistics = [example_statistic\<lparr>os_id := Some 1, os_opening_id := Some 7\<rparr>],
       data_update_logs = [], tier_list_entries = [] \<rparr>"

section \<open>The discovery engine: bounds, score and rates\<close>

lemma goc_total:
  "get_opening_continuations ms P = (Some st, P') \<Longrightarrow>
     oc_total_games st = oc_white_wins st + oc_black_wins st + oc_draws st"
  by (auto simp: get_opening_continuations_def split: prod.splits response.splits)

lemma explore_continuations_all:
  assumes step: "\<And>ms st. 100 \<le> oc_total_games st \<Longrightarrow>
            oc_total_games st = oc_white_wins st + oc_black_wins st + oc_draws st \<Longrightarrow>
            Q (make_opening_data ms st)"
  shows "\<forall>x\<in>set acc. Q x \<Longrightarrow> \<forall>x\<in>set (snd (explore_continuations N fm cs P acc)). Q x"
proof (induction cs arbitrary: P acc)
  case Nil
  then show ?case by simp
next
  case (Cons c cs)
  show ?case
  proof (cases "get_opening_continuations [fm, san c] P")
    case (Pair r P')
    show ?thesis
    proof (cases r)
      case None
      with Pair Cons show ?thesis by simp
    next
      case (Some st)
      show ?thesis
      proof (cases "oc_total_games st < 100")
        case True
        with Pair Some Cons show ?thesis by simp
      next
        case False
        have tot: "oc_total_games st = oc_white_wins st + oc_black_wins st + oc_draws st"
          using Pair Some goc_total by blast
        have q: "Q (make_opening_data [fm, san c] st)"
          using step False tot by simp
        have all': "\<forall>x\<in>set (acc @ [make_opening_data [fm, san c] st]). Q x"
          using Cons.prems q by simp
        show ?thesis
          using Pair Some False all' Cons.IH [OF all']
          by (simp add: Let_def)
      qed
    qed
  qed
qed

lemma explore_first_moves_all:
  assumes step: "\<And>ms st. 100 \<le> oc_total_games st \<Longrightarrow>
            oc_total_games st = oc_white_wins st + oc_black_wins st + oc_draws st \<Longrightarrow>
            Q (make_opening_data ms st)"
  shows "\<forall>x\<in>set acc. Q x \<Longrightarrow> \<forall>x\<in>set (snd (explore_first_moves N fs P acc)). Q x"
proof (induction fs arbitrary: P acc)
  case Nil
  then show ?case by simp
next
  case (Cons f fs)
  show ?case
  proof (cases "get_opening_continuations [fm_move f] P")
    case (Pair r P')
    show ?thesis
    proof (cases r)
      case None
      with Pair Cons show ?thesis by simp
    next
      case (Some st)
      obtain P'' acc' where ec:
        "explore_continuations N (fm_move f) (take 5 (oc_continuations st)) P' acc = (P'', acc')"
        by (cases "explore_continuations N (fm_move f) (take 5 (oc_continuations st)) P' acc")
      have all': "\<forall>x\<in>set acc'. Q x"
        using explore_continuations_all [of Q acc N "fm_move f" "take 5 (oc_continuations st)" P', OF step Cons.prems] ec
        by simp
      show ?thesis
        using Pair Some ec all' Cons.IH [OF all'] by simp
    qed
  qed
qed

lemma set_sort_reverse: "set (sort_reverse k xs) = set xs"
  by (simp add: sort_reverse_def)

lemma length_sort_reverse: "length (sort_reverse k xs) = length xs"
  by (simp add: sort_reverse_def)

lemma set_slice_to: "set (slice_to n xs) \<subseteq> set xs"
  by (auto simp: slice_to_def dest: in_set_takeD)

lemma discover_all:
  assumes step: "\<And>ms st. 100 \<le> oc_total_games st \<Longrightarrow>
            oc_total_games st = oc_white_wins st + oc_black_wins st + oc_draws st \<Longrightarrow>
            Q (make_opening_data ms st)"
  shows "\<forall>x\<in>set (discover_openings_tree N P). Q x"
proof -
  obtain fms P' where g: "get_popular_openings P = (fms, P')"
    by (cases "get_popular_openings P")
  obtain P'' found where e: "explore_first_moves N (take 8 fms) P' [] = (P'', found)"
    by (cases "explore_first_moves N (take 8 fms) P' []")
  have "\<forall>x\<in>set found. Q x"
    using explore_first_moves_all [of Q "[]" N "take 8 fms" P', OF step] e by simp
  then show ?thesis
    using g e set_slice_to [of N "sort_reverse (\<lambda>x. (od_performance_score x, od_total_games x)) found"]
    by (auto simp: discover_openings_tree_def set_sort_reverse)
qed

lemma explore_continuations_length:
  "acc = [] \<or> int (length acc) < N \<Longrightarrow>
     int (length (snd (explore_continuations N fm cs P acc))) \<le> max N 1"
proof (induction cs arbitrary: P acc)
  case Nil
  then show ?case by auto
next
  case (Cons c cs)
  show ?case
  proof (cases "get_opening_continuations [fm, san c] P")
    case (Pair r P')
    show ?thesis
    proof (cases r)
      case None
      with Pair Cons show ?thesis by simp
    next
      case (Some st)
      show ?thesis
      proof (cases "oc_total_games st < 100")
        case True
        with Pair Some Cons show ?thesis by simp
      next
        case False
        let ?acc = "acc @ [make_opening_data [fm, san c] st]"
        show ?thesis
        proof (cases "N \<le> int (length ?acc)")
          case True
          have "int (length ?acc) \<le> max N 1" using Cons.prems by auto
          with Pair Some False True show ?thesis by (simp add: Let_def)
        next
          case stop: False
          then have "?acc = [] \<or> int (length ?acc) < N" by simp
          from Cons.IH [OF this] Pair Some False stop show ?thesis by (simp add: Let_def)
        qed
      qed
    qed
  qed
qed

lemma explore_first_moves_length:
  "acc = [] \<or> int (length acc) < N \<Longrightarrow>
     int (length (snd (explore_first_moves N fs P acc))) \<le> max N 1"
proof (induction fs arbitrary: P acc)
  case Nil
  then show ?case by auto
next
  case (Cons f fs)
  show ?case
  proof (cases "get_opening_continuations [fm_move f] P")
    case (Pair r P')
    show ?thesis
    proof (cases r)
      case None
      with Pair Cons show ?thesis by simp
    next
      case (Some st)
      obtain P'' acc' where ec:
        "explore_continuations N (fm_move f) (take 5 (oc_continuations st)) P' acc = (P'', acc')"
        by (cases "explore_continuations N (fm_move f) (take 5 (oc_continuations st)) P' acc")
      have len: "int (length acc') \<le> max N 1"
        using explore_continuations_length [OF Cons.prems, of "fm_move f" "take 5 (oc_continuations st)" P'] ec
        by simp
      show ?thesis
      proof (cases "N \<le> int (length acc')")
        case True
        with Pair Some ec len show ?thesis by simp
      next
        case False
        then have "acc' = [] \<or> int (length acc') < N" by simp
        from Cons.IH [OF this] Pair Some ec False show ?thesis by simp
      qed
    qed
  qed
qed

lemma length_slice_to:
  "int (length xs) \<le> max N 1 \<Longrightarrow> int (length (slice_to N xs)) \<le> max 0 N"
  by (auto simp: slice_to_def)

lemma discover_length: "int (length (discover_openings_tree N P)) \<le> max 0 N"
proof -
  obtain fms P' where g: "get_popular_openings P = (fms, P')"
    by (cases "get_popular_openings P")
  obtain P'' found where e: "explore_first_moves N (take 8 fms) P' [] = (P'', found)"
    by (cases "explore_first_moves N (take 8 fms) P' []")
  have "int (length found) \<le> max N 1"
    using explore_first_moves_length [of "[]" N "take 8 fms" P'] e by simp
  then have "int (length (slice_to N (sort_reverse (\<lambda>x. (od_performance_score x, od_total_games x)) found))) \<le> max 0 N"
    by (intro length_slice_to) (simp add: length_sort_reverse)
  then show ?thesis
    using g e by (simp add: discover_openings_tree_def)
qed


lemma example_discovery:
  "discover_openings_tree 50 example_provider =
     [\<lparr> od_moves_sequence = [''e4'', ''e5''], od_eco_code = [], od_opening_name = [],
        od_white_wins = 550, od_black_wins = 400, od_draws = 50, od_total_games = 1000,
        od_win_rate_white = 11 / 20, od_win_rate_black = 2 / 5, od_draw_rate = 1 / 20,
        od_performance_score = 47 \<rparr>]"
  by (simp add: discover_openings_tree_def example_provider_def reply_def move_def
      get_popular_openings_def get_opening_continuations_def first_move_of_def dict_get_def
      opening_info_of_def make_opening_data_def rate_def performance_score_def Let_def
      slice_to_def sort_reverse_def)

lemma rate_sum:
  "0 < t \<Longrightarrow> t = w + b + d \<Longrightarrow> rate w t + rate b t + rate d t = 1"
proof -
  assume pos: "0 < t" and tot: "t = w + b + d"
  have "rate w t + rate b t + rate d t = (of_int w + of_int b + of_int d) / of_int t"
    using pos by (simp add: rate_def add_divide_distrib)
  also have "\<dots> = of_int t / of_int t"
    using tot by simp
  also have "\<dots> = 1"
    using pos by simp
  finally show ?thesis .
qed

lemma make_opening_data_fields:
  "0 < oc_total_games st \<Longrightarrow>
     od_win_rate_white (make_opening_data ms st)
       = of_int (od_white_wins (make_opening_data ms st))
           / of_int (od_total_games (make_opening_data ms st))
     \<and> od_win_rate_black (make_opening_data ms st)
       = of_int (od_black_wins (make_opening_data ms st))
           / of_int (od_total_games (make_opening_data ms st))
     \<and> od_draw_rate (make_opening_data ms st)
       = of_int (od_draws (make_opening_data ms st))
           / of_int (od_total_games (make_opening_data ms st))
     \<and> od_performance_score (make_opening_data ms st)
       = (od_win_rate_white (make_opening_data ms st) * 0.4
          + (1 - od_win_rate_black (make_opening_data ms st)) * 0.4
          + od_draw_rate (make_opening_data ms st) * 0.2) * 100"
  by (simp add: make_opening_data_def Let_def rate_def performance_score_def)

text \<open>
  C4. For every requested count and every sequence of provider answers, the discovery
  returns at most the requested number of lines (none for a count below 1), and every
  returned line has at least 100 games.
\<close>

theorem discovery_bounded:
  "int (length (discover_openings_tree N P)) \<le> max 0 N
   \<and> (\<forall>l\<in>set (discover_openings_tree N P). 100 \<le> od_total_games l)"
proof
  show "int (length (discover_openings_tree N P)) \<le> max 0 N" by (rule discover_length)
  show "\<forall>l\<in>set (discover_openings_tree N P). 100 \<le> od_total_games l"
    by (rule discover_all) (simp add: make_opening_data_def Let_def)
qed

theorem discovery_bounded_witness:
  "discover_openings_tree 50 example_provider \<noteq> []
   \<and> int (length (discover_openings_tree 50 example_provider)) \<le> 50
   \<and> 100 \<le> od_total_games (hd (discover_openings_tree 50 example_provider))"
proof -
  have ne: "discover_openings_tree 50 example_provider \<noteq> []"
    by (simp add: example_discovery)
  then have "hd (discover_openings_tree 50 example_provider)
               \<in> set (discover_openings_tree 50 example_provider)"
    by simp
  with ne discovery_bounded [of 50 example_provider] show ?thesis
    by simp
qed



text \<open>The rate expression never raises, and its value is \<open>rate\<close>.\<close>

lemma rate_expression_returns: "rate_expression count total_games = Inr (rate count total_games)"
  by (simp add: rate_expression_def truediv_def rate_def)

text \<open>The two properties of a row are 0 when the row has no game.\<close>

lemma properties_without_games:
  "os_total_games s = 0 \<Longrightarrow> win_rate_for_white s = 0 \<and> win_rate_for_black s = 0"
  by (simp add: win_rate_for_white_def win_rate_for_black_def)

lemma statistic_of_json_of:
  "os_total_games (statistic_of now (json_of collected l)) = od_total_games l
   \<and> os_white_wins (statistic_of now (json_of collected l)) = od_white_wins l
   \<and> os_black_wins (statistic_of now (json_of collected l)) = od_black_wins l
   \<and> os_draws (statistic_of now (json_of collected l)) = od_draws l
   \<and> os_win_rate_white (statistic_of now (json_of collected l)) = od_win_rate_white l
   \<and> os_win_rate_black (statistic_of now (json_of collected l)) = od_win_rate_black l
   \<and> os_draw_rate (statistic_of now (json_of collected l)) = od_draw_rate l"
  by (simp add: statistic_of_def json_of_def dict_get_def)

lemma discovered_line_rates:
  "\<forall>l\<in>set (discover_openings_tree N P).
      100 \<le> od_total_games l
    \<and> od_win_rate_white l = of_int (od_white_wins l) / of_int (od_total_games l)
    \<and> od_win_rate_black l = of_int (od_black_wins l) / of_int (od_total_games l)
    \<and> od_draw_rate l = of_int (od_draws l) / of_int (od_total_games l)
    \<and> od_win_rate_white l + od_win_rate_black l + od_draw_rate l = 1"
proof (rule discover_all)
  fix ms :: "string list" and st :: continuation_stats
  assume big: "100 \<le> oc_total_games st"
    and tot: "oc_total_games st = oc_white_wins st + oc_black_wins st + oc_draws st"
  have pos: "0 < oc_total_games st" using big by simp
  have sum: "rate (oc_white_wins st) (oc_total_games st)
          + rate (oc_black_wins st) (oc_total_games st)
          + rate (oc_draws st) (oc_total_games st) = 1"
    using pos tot by (intro rate_sum) simp_all
  have flds: "od_win_rate_white (make_opening_data ms st)
       = of_int (od_white_wins (make_opening_data ms st))
           / of_int (od_total_games (make_opening_data ms st))
     \<and> od_win_rate_black (make_opening_data ms st)
       = of_int (od_black_wins (make_opening_data ms st))
           / of_int (od_total_games (make_opening_data ms st))
     \<and> od_draw_rate (make_opening_data ms st)
       = of_int (od_draws (make_opening_data ms st))
           / of_int (od_total_games (make_opening_data ms st))"
    using make_opening_data_fields [OF pos, of ms] by simp
  have s: "od_win_rate_white (make_opening_data ms st) + od_win_rate_black (make_opening_data ms st)
           + od_draw_rate (make_opening_data ms st) = 1"
    using sum by (simp add: make_opening_data_def Let_def)
  have t: "100 \<le> od_total_games (make_opening_data ms st)"
    using big by (simp add: make_opening_data_def Let_def)
  from t flds s show "100 \<le> od_total_games (make_opening_data ms st)
    \<and> od_win_rate_white (make_opening_data ms st)
        = of_int (od_white_wins (make_opening_data ms st)) / of_int (od_total_games (make_opening_data ms st))
    \<and> od_win_rate_black (make_opening_data ms st)
        = of_int (od_black_wins (make_opening_data ms st)) / of_int (od_total_games (make_opening_data ms st))
    \<and> od_draw_rate (make_opening_data ms st)
        = of_int (od_draws (make_opening_data ms st)) / of_int (od_total_games (make_opening_data ms st))
    \<and> od_win_rate_white (make_opening_data ms st) + od_win_rate_black (make_opening_data ms st)
        + od_draw_rate (make_opening_data ms st) = 1"
    by blast
qed

text \<open>
  C9, as stated, fails for the rows of a loaded file. \<^verbatim>\<open>process_opening_data\<close> copies
  the rates of each object and derives nothing: the object with no game gives a row with
  total\_games 0 and the white rate 0.55, and the object with 1000 games gives a row whose
  three rates add up to 1.35.
\<close>

theorem loaded_row_keeps_stored_rates:
  "length (snd (process_opening_data 0 [zero_games_record])) = 1
   \<and> os_total_games (hd (snd (process_opening_data 0 [zero_games_record]))) = 0
   \<and> os_win_rate_white (hd (snd (process_opening_data 0 [zero_games_record]))) = 11 / 20
   \<and> os_total_games (hd (snd (process_opening_data 0 [inconsistent_record]))) = 1000
   \<and> os_win_rate_white (hd (snd (process_opening_data 0 [inconsistent_record])))
       + os_win_rate_black (hd (snd (process_opening_data 0 [inconsistent_record])))
       + os_draw_rate (hd (snd (process_opening_data 0 [inconsistent_record]))) = 27 / 20"
  by (simp add: process_opening_data_def statistic_of_def zero_games_record_def
      inconsistent_record_def dict_get_def)

text \<open>
  C9, amended. Every statistic row that \<^verbatim>\<open>process_opening_data\<close> builds from the lines
  of the discovery has at least 100 games, carries the rates white\_wins / total\_games,
  black\_wins / total\_games and draws / total\_games, and its three rates add up to 1
  (floats are exact rationals here; in doubles the sum is 1 within rounding). The rate
  expression of the collector divides by nothing that is zero: evaluated with a division
  that raises, it returns the rate, and 0 when there is no game. A row of any loaded file
  has the total and the rates of its object, 0 where the object has no such key.
\<close>

theorem pipeline_rows_rates:
  "(\<forall>s\<in>set (snd (process_opening_data now
                     (map (json_of collected) (discover_openings_tree N P)))).
       100 \<le> os_total_games s
     \<and> os_win_rate_white s = of_int (os_white_wins s) / of_int (os_total_games s)
     \<and> os_win_rate_black s = of_int (os_black_wins s) / of_int (os_total_games s)
     \<and> os_draw_rate s = of_int (os_draws s) / of_int (os_total_games s)
     \<and> os_win_rate_white s + os_win_rate_black s + os_draw_rate s = 1)
   \<and> rate_expression count total_games = Inr (rate count total_games)
   \<and> rate_expression count 0 = Inr 0
   \<and> map os_total_games (snd (process_opening_data now raw_data))
       = map (\<lambda>data. dict_get (j_total_games data) 0) raw_data
   \<and> map os_win_rate_white (snd (process_opening_data now raw_data))
       = map (\<lambda>data. dict_get (j_win_rate_white data) 0) raw_data
   \<and> map os_win_rate_black (snd (process_opening_data now raw_data))
       = map (\<lambda>data. dict_get (j_win_rate_black data) 0) raw_data
   \<and> map os_draw_rate (snd (process_opening_data now raw_data))
       = map (\<lambda>data. dict_get (j_draw_rate data) 0) raw_data"
proof (intro conjI)
  show "\<forall>s\<in>set (snd (process_opening_data now
                     (map (json_of collected) (discover_openings_tree N P)))).
       100 \<le> os_total_games s
     \<and> os_win_rate_white s = of_int (os_white_wins s) / of_int (os_total_games s)
     \<and> os_win_rate_black s = of_int (os_black_wins s) / of_int (os_total_games s)
     \<and> os_draw_rate s = of_int (os_draws s) / of_int (os_total_games s)
     \<and> os_win_rate_white s + os_win_rate_black s + os_draw_rate s = 1"
  proof
    fix s
    assume "s \<in> set (snd (process_opening_data now
                     (map (json_of collected) (discover_openings_tree N P))))"
    then obtain l where l: "l \<in> set (discover_openings_tree N P)"
      and s: "s = statistic_of now (json_of collected l)"
      by (auto simp: process_opening_data_def)
    from l discovered_line_rates [of N P]
    have "100 \<le> od_total_games l
      \<and> od_win_rate_white l = of_int (od_white_wins l) / of_int (od_total_games l)
      \<and> od_win_rate_black l = of_int (od_black_wins l) / of_int (od_total_games l)
      \<and> od_draw_rate l = of_int (od_draws l) / of_int (od_total_games l)
      \<and> od_win_rate_white l + od_win_rate_black l + od_draw_rate l = 1"
      by blast
    then show "100 \<le> os_total_games s
     \<and> os_win_rate_white s = of_int (os_white_wins s) / of_int (os_total_games s)
     \<and> os_win_rate_black s = of_int (os_black_wins s) / of_int (os_total_games s)
     \<and> os_draw_rate s = of_int (os_draws s) / of_int (os_total_games s)
     \<and> os_win_rate_white s + os_win_rate_black s + os_draw_rate s = 1"
      using statistic_of_json_of [of now collected l] s by simp
  qed
  show "rate_expression count total_games = Inr (rate count total_games)"
    by (rule rate_expression_returns)
  show "rate_expression count 0 = Inr 0"
    by (simp add: rate_expression_def)
  show "map os_total_games (snd (process_opening_data now raw_data))
       = map (\<lambda>data. dict_get (j_total_games data) 0) raw_data"
    by (simp add: process_opening_data_def statistic_of_def)
  show "map os_win_rate_white (snd (process_opening_data now raw_data))
       = map (\<lambda>data. dict_get (j_win_rate_white data) 0) raw_data"
    by (simp add: process_opening_data_def statistic_of_def)
  show "map os_win_rate_black (snd (process_opening_data now raw_data))
       = map (\<lambda>data. dict_get (j_win_rate_black data) 0) raw_data"
    by (simp add: process_opening_data_def statistic_of_def)
  show "map os_draw_rate (snd (process_opening_data now raw_data))
       = map (\<lambda>data. dict_get (j_draw_rate data) 0) raw_data"
    by (simp add: process_opening_data_def statistic_of_def)
qed

theorem pipeline_rows_rates_witness:
  "hd (snd (process_opening_data 20 (map (json_of 10) (discover_openings_tree 50 example_provider))))
     \<in> set (snd (process_opening_data 20
                  (map (json_of 10) (discover_openings_tree 50 example_provider))))
   \<and> 100 \<le> os_total_games
        (hd (snd (process_opening_data 20
                    (map (json_of 10) (discover_openings_tree 50 example_provider)))))
   \<and> os_win_rate_white
        (hd (snd (process_opening_data 20
                    (map (json_of 10) (discover_openings_tree 50 example_provider)))))
     + os_win_rate_black
        (hd (snd (process_opening_data 20
                    (map (json_of 10) (discover_openings_tree 50 example_provider)))))
     + os_draw_rate
        (hd (snd (process_opening_data 20
                    (map (json_of 10) (discover_openings_tree 50 example_provider))))) = 1"
proof -
  have mem: "hd (snd (process_opening_data 20
                        (map (json_of 10) (discover_openings_tree 50 example_provider))))
     \<in> set (snd (process_opening_data 20
                  (map (json_of 10) (discover_openings_tree 50 example_provider))))"
    by (simp add: example_discovery process_opening_data_def)
  with pipeline_rows_rates [of 20 10 50 example_provider 0 0 "[]"]
  show ?thesis by blast
qed

section \<open>The persistence layer: what a failed load leaves\<close>

lemma fold_max_ge: "(a::int) \<le> fold max xs a"
proof (induction xs arbitrary: a)
  case Nil
  show ?case by simp
next
  case (Cons x xs)
  have "a \<le> max x a" by simp
  also have "\<dots> \<le> fold max xs (max x a)" by (rule Cons.IH)
  finally show ?case by simp
qed

lemma fold_max_mem: "x \<in> set xs \<Longrightarrow> (x::int) \<le> fold max xs a"
proof (induction xs arbitrary: a)
  case Nil
  then show ?case by simp
next
  case (Cons y ys)
  show ?case
  proof (cases "x = y")
    case True
    have "x \<le> max y a" using True by simp
    also have "\<dots> \<le> fold max ys (max y a)" by (rule fold_max_ge)
    finally show ?thesis by simp
  next
    case False
    with Cons.prems have "x \<in> set ys" by simp
    from Cons.IH [OF this] show ?thesis by simp
  qed
qed

lemma generated_id_fresh: "Some (generated_id ids) \<notin> set ids"
proof
  assume "Some (generated_id ids) \<in> set ids"
  then have "generated_id ids \<in> set (map (\<lambda>i. dict_get i 0) ids)"
    by (force simp: dict_get_def)
  then have "generated_id ids \<le> fold max (map (\<lambda>i. dict_get i 0) ids) 0"
    by (rule fold_max_mem)
  then show False by (simp add: generated_id_def)
qed

lemma insert_rows_map:
  assumes g: "\<And>i x. g (set_key i x) = g x"
  shows "insert_rows key set_key table xs = Inr t \<Longrightarrow> map g t = map g table @ map g xs"
proof (induction xs arbitrary: table)
  case Nil
  then show ?case by simp
next
  case (Cons x xs)
  let ?i = "case key x of None \<Rightarrow> generated_id (map key table) | Some k \<Rightarrow> k"
  from Cons.prems have "insert_rows key set_key (table @ [set_key ?i x]) xs = Inr t"
    by (simp add: Let_def split: if_splits)
  from Cons.IH [OF this] show ?case by (simp add: g)
qed

lemma insert_log_generated:
  "l_id l = None \<Longrightarrow>
     insert_logs logs [l] = Inr (logs @ [l\<lparr>l_id := Some (generated_id (map l_id logs))\<rparr>])"
  using generated_id_fresh [of "map l_id logs"]
  by (simp add: insert_logs_def Let_def)

text \<open>
  The log of a run after \<^verbatim>\<open>save_to_database\<close>: success when it returns True, error when
  it returns False, and still in progress when the commit of the exception handler raises.
\<close>

lemma save_log_status:
  assumes run: "save_to_database started completed new_openings statistics db = (r, db')"
  shows "\<exists>l\<in>set (data_update_logs db').
            l_id l = Some (generated_id (map l_id (data_update_logs db)))
          \<and> l_status l = (case r of Returned b \<Rightarrow> if b then ''success'' else ''error''
                           | Raised e \<Rightarrow> ''in_progress'')"
proof -
  let ?log = "\<lparr> l_id = None, l_operation_type = ''initial_load'',
                 l_status = ''in_progress'', l_openings_processed = 0,
                 l_statistics_updated = 0, l_started_at = started,
                 l_completed_at = None, l_duration_seconds = None,
                 l_error_message = None \<rparr>"
  have ins: "insert_logs (data_update_logs db) [?log]
               = Inr (data_update_logs db
                        @ [?log\<lparr>l_id := Some (generated_id (map l_id (data_update_logs db)))\<rparr>])"
    by (rule insert_log_generated) simp
  show ?thesis
    using run ins
    by (auto simp: save_to_database_def save_failed_def get_session_def commit_def
        rollback_def flush_failed_def set_log_def Let_def split: sum.splits)
qed

text \<open>Whenever the load does not return True, the statistics of the store are gone.\<close>

lemma failed_save_deletes_statistics:
  assumes run: "save_to_database started completed new_openings statistics db = (r, db')"
    and failed: "r \<noteq> Returned True"
  shows "opening_statistics db' = []"
proof -
  let ?log = "\<lparr> l_id = None, l_operation_type = ''initial_load'',
                 l_status = ''in_progress'', l_openings_processed = 0,
                 l_statistics_updated = 0, l_started_at = started,
                 l_completed_at = None, l_duration_seconds = None,
                 l_error_message = None \<rparr>"
  have ins: "insert_logs (data_update_logs db) [?log]
               = Inr (data_update_logs db
                        @ [?log\<lparr>l_id := Some (generated_id (map l_id (data_update_logs db)))\<rparr>])"
    by (rule insert_log_generated) simp
  show ?thesis
    using run ins failed
    by (auto simp: save_to_database_def save_failed_def get_session_def commit_def
        rollback_def flush_failed_def set_log_def Let_def split: sum.splits)
qed

text \<open>
  C1. The replacement is not atomic. The store holds one opening and its statistic; the
  load gets one opening and two statistics, so that linking the second statistic raises
  IndexError after the delete has been committed and the new opening flushed. The handler
  commits: the old statistic is gone, the new opening is stored without statistics, and the
  log of the run is marked error with the text of the exception.
\<close>

theorem replace_all_not_atomic:
  "save_to_database 100 200 [example_opening] [example_statistic, example_statistic]
     example_database
   = (Returned False,
      \<lparr> openings = [example_opening\<lparr>o_id := Some 1\<rparr>],
        opening_statistics = [],
        data_update_logs =
          [\<lparr> l_id = Some 1, l_operation_type = ''initial_load'', l_status = ''error'',
              l_openings_processed = 0, l_statistics_updated = 0, l_started_at = 100,
              l_completed_at = Some 200, l_duration_seconds = None,
              l_error_message = Some ''list index out of range'' \<rparr>],
        tier_list_entries = [] \<rparr>)
   \<and> opening_statistics example_database \<noteq> []"
  by (simp add: save_to_database_def save_failed_def example_database_def example_opening_def
      get_session_def insert_logs_def insert_openings_def insert_statistics_def
      generated_id_def dict_get_def commit_def rollback_def flush_failed_def set_log_def Let_def)

text \<open>
  C7. A run can end with its log in progress. The load gets two openings with the same
  primary key; the flush that inserts them is rejected, which leaves the session inactive.
  The handler calls \<^verbatim>\<open>commit()\<close> before \<^verbatim>\<open>rollback()\<close>, so the commit raises, the
  exception leaves \<^verbatim>\<open>save_to_database\<close>, and the log row committed at the start of the
  run keeps the status in\_progress.
\<close>

theorem run_left_in_progress:
  "save_to_database 100 200
     [example_opening\<lparr>o_id := Some 1\<rparr>, example_opening\<lparr>o_id := Some 1\<rparr>]
     [example_statistic, example_statistic] example_database
   = (Raised PendingRollbackError,
      \<lparr> openings = [], opening_statistics = [],
        data_update_logs =
          [\<lparr> l_id = Some 1, l_operation_type = ''initial_load'', l_status = ''in_progress'',
              l_openings_processed = 0, l_statistics_updated = 0, l_started_at = 100,
              l_completed_at = None, l_duration_seconds = None, l_error_message = None \<rparr>],
        tier_list_entries = [] \<rparr>)"
  by (simp add: save_to_database_def save_failed_def example_database_def get_session_def
      insert_logs_def insert_openings_def insert_statistics_def generated_id_def dict_get_def
      commit_def rollback_def flush_failed_def set_log_def Let_def)

section \<open>The query layer: latest statistics and metric names\<close>

text \<open>
  C2. The tier list of a context can miss an opening that has a statistic in that context.
  The opening has a row for the rating range 1600 and a later row for 1800. The subquery
  takes the latest time over all rows of the opening, so the row for 1600 never equals it:
  the tier list for 1600 is empty, while the one for 1800 has the opening.
\<close>

theorem tier_list_misses_context_row:
  "filter (\<lambda>s. os_rating_range s = Some ''1600'') (opening_statistics two_context_database)
     = [statistic_1600]
   \<and> get_tier_list two_context_database (Some ''1600'') (Some ''all'') (Some ''default'') = []
   \<and> get_tier_list two_context_database (Some ''1800'') (Some ''all'') (Some ''default'')
       = [(example_opening\<lparr>o_id := Some 1\<rparr>, statistic_1800, None, None)]"
  by (simp add: get_tier_list_def two_context_database_def statistic_1600_def
      statistic_1800_def example_statistic_def example_opening_def join_statistics_def
      joined_def filter_given_def latest_collected_at_def order_by_desc_def
      tier_entry_for_def Let_def)

text \<open>A name that the class does not have sorts like \<^verbatim>\<open>performance_score\<close>.\<close>

lemma sort_field_fallback:
  "class_getattr inherited name = None \<Longrightarrow>
     sort_field inherited name = sort_field inherited ''performance_score''"
  by (simp add: sort_field_def class_getattr_def class_attributes_def)

text \<open>Whatever the class inherits, as long as it has no name popularity, this metric raises.\<close>

lemma popularity_raises_for_every_base:
  "''popularity'' \<notin> set inherited \<Longrightarrow>
     get_top_performers inherited example_database 10 ''popularity'' = Inl AttributeError"
  by (simp add: get_top_performers_def sort_field_def class_getattr_def class_attributes_def
      join_statistics_def joined_def example_database_def example_opening_def
      example_statistic_def order_by_desc_def sql_limit_def getattr_statistic_def)

text \<open>
  C8. An unknown metric makes \<^verbatim>\<open>get_top_performers\<close> raise. The sort falls back to
  \<^verbatim>\<open>performance_score\<close>, but each result row is then read with
  \<^verbatim>\<open>getattr(statistic, metric)\<close>, which has no default: with one row to return, the
  metric popularity raises AttributeError where \<^verbatim>\<open>performance_score\<close> returns the row.
\<close>

theorem unknown_metric_raises:
  "class_getattr declarative_base_names ''popularity'' = None
   \<and> get_top_performers declarative_base_names example_database 10 ''popularity''
       = Inl AttributeError
   \<and> get_top_performers declarative_base_names example_database 10 ''performance_score''
       = Inr [(example_opening\<lparr>o_id := Some 1\<rparr>,
               example_statistic\<lparr>os_id := Some 1, os_opening_id := Some 1\<rparr>, Num 47)]"
  by (simp add: get_top_performers_def sort_field_def class_getattr_def class_attributes_def
      declarative_base_names_def join_statistics_def joined_def example_database_def
      example_opening_def example_statistic_def order_by_desc_def sql_limit_def
      getattr_statistic_def)

section \<open>The tier-list overlay: upserts and batches\<close>

lemma apply_updates_fails:
  "list_ex fails us \<Longrightarrow>
     apply_updates fails now rr tc uid us rows added = Inl OperationalError"
  by (induction us arbitrary: rows added) (auto split: option.splits)

text \<open>
  C6. When the database fails on any update of the list, the call answers with the HTTP
  error 500 and the database is what it was before the call; and whenever the call answers
  with an error, the database is unchanged.
\<close>

theorem tier_updates_atomic:
  "(list_ex fails updates \<longrightarrow>
      update_tier_list fails now updates rating_range time_control user_id db
        = (Inl (HTTPException 500 (''Failed to update tier list: '' @ str OperationalError)), db))
   \<and> (\<forall>e db'. update_tier_list fails now updates rating_range time_control user_id db
                  = (Inl e, db') \<longrightarrow> db' = db)"
proof
  show "list_ex fails updates \<longrightarrow>
      update_tier_list fails now updates rating_range time_control user_id db
        = (Inl (HTTPException 500 (''Failed to update tier list: '' @ str OperationalError)), db)"
    by (simp add: update_tier_list_def apply_updates_fails)
  show "\<forall>e db'. update_tier_list fails now updates rating_range time_control user_id db
                  = (Inl e, db') \<longrightarrow> db' = db"
    by (auto simp: update_tier_list_def split: sum.splits prod.splits)
qed

theorem tier_updates_atomic_witness:
  "list_ex (\<lambda>u. u_tier_rank u = ''S'') [update_A, update_S]
   \<and> update_tier_list (\<lambda>u. u_tier_rank u = ''S'') 5 [update_A, update_S]
        ''all'' ''all'' ''default'' tier_database
      = (Inl (HTTPException 500 (''Failed to update tier list: '' @ str OperationalError)),
         tier_database)"
proof -
  have f: "list_ex (\<lambda>u. u_tier_rank u = ''S'') [update_A, update_S]"
    by (simp add: update_A_def update_S_def)
  with tier_updates_atomic [of "\<lambda>u. u_tier_rank u = ''S''" "[update_A, update_S]" 5
      "''all''" "''all''" "''default''" tier_database]
  show ?thesis by blast
qed

lemma filter_update_first:
  "(\<And>x. p x \<Longrightarrow> p (f x)) \<Longrightarrow>
     filter p (update_first p f xs) = (case filter p xs of [] \<Rightarrow> [] | y # ys \<Rightarrow> f y # ys)"
  by (induction xs) auto

lemma map_update_first:
  "(\<And>x. g (f x) = g x) \<Longrightarrow> map g (update_first p f xs) = map g xs"
  by (induction xs) auto

lemma find_None_filter: "find p xs = None \<longleftrightarrow> filter p xs = []"
  by (induction xs) auto

lemma same_key_key_of:
  "same_key opening_id rr tc uid e \<longleftrightarrow> key_of e = (opening_id, Some rr, Some tc, Some uid)"
  by (auto simp: same_key_def key_of_def)

text \<open>One call with one update, when the database serves it.\<close>

lemma single_update:
  assumes "\<not> fails u"
  shows "update_tier_list fails now [u] rr tc uid db
     = (Inr ''Tier list updated successfully'',
        db\<lparr>tier_list_entries :=
           (case find (same_key (u_opening_id u) rr tc uid) (tier_list_entries db) of
              Some existing \<Rightarrow>
                update_first (same_key (u_opening_id u) rr tc uid)
                  (\<lambda>e. e\<lparr>tl_tier_rank := u_tier_rank u, tl_tier_position := u_tier_position u,
                         tl_updated_at := now\<rparr>) (tier_list_entries db)
            | None \<Rightarrow>
                tier_list_entries db @
                  [\<lparr> tl_id = Some (generated_id (map tl_id (tier_list_entries db))),
                      tl_opening_id = u_opening_id u,
                      tl_tier_rank = u_tier_rank u, tl_tier_position = u_tier_position u,
                      tl_rating_range = Some rr, tl_time_control = Some tc,
                      tl_user_id = Some uid, tl_created_at = now, tl_updated_at = now \<rparr>])\<rparr>)"
proof (cases "find (same_key (u_opening_id u) rr tc uid) (tier_list_entries db)")
  case None
  have "Some (generated_id (map tl_id (tier_list_entries db))) \<notin> set (map tl_id (tier_list_entries db))"
    by (rule generated_id_fresh)
  then show ?thesis
    using assms None by (simp add: update_tier_list_def insert_entries_def Let_def)
next
  case (Some e)
  then show ?thesis
    using assms by (simp add: update_tier_list_def insert_entries_def)
qed

lemma single_update_rows:
  assumes nf: "\<not> fails u"
  shows "map (\<lambda>e. (tl_tier_rank e, tl_tier_position e))
           (rows_of_key (u_opening_id u) rr tc uid
              (snd (update_tier_list fails now [u] rr tc uid db)))
         = (u_tier_rank u, u_tier_position u)
             # map (\<lambda>e. (tl_tier_rank e, tl_tier_position e))
                 (tl (rows_of_key (u_opening_id u) rr tc uid db))"
proof -
  let ?p = "same_key (u_opening_id u) rr tc uid"
  let ?f = "\<lambda>e. e\<lparr>tl_tier_rank := u_tier_rank u, tl_tier_position := u_tier_position u,
                    tl_updated_at := now\<rparr>"
  note upd = single_update [of fails u now rr tc uid db, OF nf]
  show ?thesis
  proof (cases "find ?p (tier_list_entries db)")
    case None
    then have "filter ?p (tier_list_entries db) = []"
      by (simp add: find_None_filter)
    with None upd show ?thesis
      by (simp add: rows_of_key_def same_key_def)
  next
    case (Some e)
    then have ne: "filter ?p (tier_list_entries db) \<noteq> []"
      using find_None_filter [of ?p "tier_list_entries db"] by simp
    have keep: "\<And>x. ?p x \<Longrightarrow> ?p (?f x)"
      by (simp add: same_key_def)
    have "filter ?p (update_first ?p ?f (tier_list_entries db))
            = (case filter ?p (tier_list_entries db) of [] \<Rightarrow> [] | y # ys \<Rightarrow> ?f y # ys)"
      by (rule filter_update_first) (rule keep)
    with ne Some upd show ?thesis
      by (cases "filter ?p (tier_list_entries db)") (simp_all add: rows_of_key_def)
  qed
qed

text \<open>
  Two updates of one key, sent by two calls, leave one row, and it holds the second update.
\<close>

lemma two_calls_upsert:
  assumes one: "length (rows_of_key (u_opening_id u1) rr tc uid db) \<le> 1"
    and same: "u_opening_id u2 = u_opening_id u1"
  shows "map (\<lambda>e. (tl_tier_rank e, tl_tier_position e))
           (rows_of_key (u_opening_id u1) rr tc uid
              (snd (update_tier_list no_failure t2 [u2] rr tc uid
                 (snd (update_tier_list no_failure t1 [u1] rr tc uid db)))))
         = [(u_tier_rank u2, u_tier_position u2)]"
proof -
  let ?db1 = "snd (update_tier_list no_failure t1 [u1] rr tc uid db)"
  have nf: "\<And>u. \<not> no_failure u" by (simp add: no_failure_def)
  have "map (\<lambda>e. (tl_tier_rank e, tl_tier_position e))
          (rows_of_key (u_opening_id u1) rr tc uid ?db1)
          = (u_tier_rank u1, u_tier_position u1)
              # map (\<lambda>e. (tl_tier_rank e, tl_tier_position e))
                  (tl (rows_of_key (u_opening_id u1) rr tc uid db))"
    using single_update_rows [of no_failure u1 rr tc uid t1 db] nf by simp
  moreover have "tl (rows_of_key (u_opening_id u1) rr tc uid db) = []"
    using one by (cases "rows_of_key (u_opening_id u1) rr tc uid db") simp_all
  ultimately have "map (\<lambda>e. (tl_tier_rank e, tl_tier_position e))
          (rows_of_key (u_opening_id u1) rr tc uid ?db1) = [(u_tier_rank u1, u_tier_position u1)]"
    by simp
  then have "length (rows_of_key (u_opening_id u1) rr tc uid ?db1) = 1"
    using length_map [of "\<lambda>e. (tl_tier_rank e, tl_tier_position e)"
        "rows_of_key (u_opening_id u1) rr tc uid ?db1"]
    by simp
  then have "tl (rows_of_key (u_opening_id u2) rr tc uid ?db1) = []"
    using same by (cases "rows_of_key (u_opening_id u1) rr tc uid ?db1") simp_all
  with single_update_rows [of no_failure u2 rr tc uid t2 ?db1] nf same
  show ?thesis by simp
qed

lemma apply_updates_keys:
  assumes ok: "apply_updates fails now rr tc uid us rows added = Inr (rows', added')"
    and d: "distinct (map u_opening_id us)"
    and inv: "distinct (map key_of rows)" "distinct (map key_of added)"
             "set (map key_of added) \<inter> set (map key_of rows) = {}"
             "\<forall>e\<in>set added. \<exists>i. key_of e = (i, Some rr, Some tc, Some uid)
                                 \<and> i \<notin> set (map u_opening_id us)"
  shows "distinct (map key_of rows' @ map key_of added')"
  using ok d inv
proof (induction us arbitrary: rows added)
  case Nil
  then show ?case by auto
next
  case (Cons u us)
  let ?p = "same_key (u_opening_id u) rr tc uid"
  let ?f = "\<lambda>e. e\<lparr>tl_tier_rank := u_tier_rank u, tl_tier_position := u_tier_position u,
                    tl_updated_at := now\<rparr>"
  let ?new = "\<lparr> tl_id = None, tl_opening_id = u_opening_id u,
                          tl_tier_rank = u_tier_rank u, tl_tier_position = u_tier_position u,
                          tl_rating_range = Some rr,
                          tl_time_control = Some tc, tl_user_id = Some uid,
                          tl_created_at = now, tl_updated_at = now \<rparr>"
  from Cons.prems(1) have nf: "\<not> fails u" by (auto split: if_splits)
  show ?case
  proof (cases "find ?p rows")
    case (Some e)
    have keys: "map key_of (update_first ?p ?f rows) = map key_of rows"
      by (rule map_update_first) (simp add: key_of_def)
    have rec: "apply_updates fails now rr tc uid us (update_first ?p ?f rows) added
                 = Inr (rows', added')"
      using Cons.prems(1) nf Some by simp
    show ?thesis
    proof (rule Cons.IH [OF rec])
      show "distinct (map u_opening_id us)" using Cons.prems(2) by simp
      show "distinct (map key_of (update_first ?p ?f rows))" using Cons.prems(3) keys by simp
      show "distinct (map key_of added)" by (rule Cons.prems(4))
      show "set (map key_of added) \<inter> set (map key_of (update_first ?p ?f rows)) = {}"
        using Cons.prems(5) keys by simp
      show "\<forall>e\<in>set added. \<exists>i. key_of e = (i, Some rr, Some tc, Some uid)
                                 \<and> i \<notin> set (map u_opening_id us)"
        using Cons.prems(6) by auto
    qed
  next
    case None
    have rec: "apply_updates fails now rr tc uid us rows (added @ [?new]) = Inr (rows', added')"
      using Cons.prems(1) nf None by simp
    have knew: "key_of ?new = (u_opening_id u, Some rr, Some tc, Some uid)"
      by (simp add: key_of_def)
    have notrows: "key_of ?new \<notin> set (map key_of rows)"
    proof
      assume "key_of ?new \<in> set (map key_of rows)"
      then obtain e where "e \<in> set rows" "key_of e = (u_opening_id u, Some rr, Some tc, Some uid)"
        using knew by auto
      then have "e \<in> set rows \<and> ?p e" by (simp add: same_key_key_of)
      then have "find ?p rows \<noteq> None" by (auto simp: find_None_iff)
      with None show False by simp
    qed
    have notadded: "key_of ?new \<notin> set (map key_of added)"
    proof
      assume "key_of ?new \<in> set (map key_of added)"
      then obtain e where e: "e \<in> set added" "key_of e = key_of ?new" by auto
      with Cons.prems(6) obtain i where "key_of e = (i, Some rr, Some tc, Some uid)"
        "i \<notin> set (map u_opening_id (u # us))" by blast
      with e knew show False by simp
    qed
    show ?thesis
    proof (rule Cons.IH [OF rec])
      show "distinct (map u_opening_id us)" using Cons.prems(2) by simp
      show "distinct (map key_of rows)" by (rule Cons.prems(3))
      show "distinct (map key_of (added @ [?new]))"
        using Cons.prems(4) notadded by simp
      show "set (map key_of (added @ [?new])) \<inter> set (map key_of rows) = {}"
        using Cons.prems(5) notrows by auto
      show "\<forall>e\<in>set (added @ [?new]). \<exists>i. key_of e = (i, Some rr, Some tc, Some uid)
                                 \<and> i \<notin> set (map u_opening_id us)"
      proof
        fix e assume "e \<in> set (added @ [?new])"
        then consider "e \<in> set added" | "e = ?new" by auto
        then show "\<exists>i. key_of e = (i, Some rr, Some tc, Some uid) \<and> i \<notin> set (map u_opening_id us)"
        proof cases
          case 1
          with Cons.prems(6) show ?thesis by auto
        next
          case 2
          with knew Cons.prems(2) show ?thesis by auto
        qed
      qed
    qed
  qed
qed

lemma distinct_batch_keeps_one_entry_per_key:
  assumes inv: "one_entry_per_key db"
    and d: "distinct (map u_opening_id updates)"
    and ok: "update_tier_list fails now updates rr tc uid db = (Inr m, db')"
  shows "one_entry_per_key db'"
proof -
  from ok obtain rows added table where
    a: "apply_updates fails now rr tc uid updates (tier_list_entries db) [] = Inr (rows, added)"
    and i: "insert_entries rows added = Inr table"
    and db': "db' = db\<lparr>tier_list_entries := table\<rparr>"
    by (auto simp: update_tier_list_def split: sum.splits prod.splits)
  have "distinct (map key_of rows @ map key_of added)"
    using a d inv by (intro apply_updates_keys [OF a d]) (simp_all add: one_entry_per_key_def)
  moreover have "map key_of table = map key_of rows @ map key_of added"
    using i unfolding insert_entries_def
    by (rule insert_rows_map [rotated]) (simp add: key_of_def)
  ultimately show ?thesis
    using db' by (simp add: one_entry_per_key_def)
qed

text \<open>
  C5. Two updates of one key in one call are not an upsert when the key has no row yet.
  The query for an existing entry does not see the entry added for the first update, so
  the second update adds another one: the key of opening 7 ends with two rows, A and S.
\<close>

theorem batch_upsert_duplicates:
  "update_tier_list no_failure 5 [update_A, update_S] ''all'' ''all'' ''default'' tier_database
     = (Inr ''Tier list updated successfully'',
        tier_database\<lparr>tier_list_entries := [entry_7 1 ''A'', entry_7 2 ''S'']\<rparr>)
   \<and> rows_of_key 7 ''all'' ''all'' ''default''
        (tier_database\<lparr>tier_list_entries := [entry_7 1 ''A'', entry_7 2 ''S'']\<rparr>)
     = [entry_7 1 ''A'', entry_7 2 ''S'']"
  by (simp add: update_tier_list_def tier_database_def insert_entries_def generated_id_def
      dict_get_def same_key_def update_A_def update_S_def entry_7_def no_failure_def
      rows_of_key_def)

text \<open>
  C10. A successful call can break the invariant that a key has at most one row: the
  store has no entry, the call with the two updates of opening 7 succeeds, and the key has
  two rows afterwards.
\<close>

theorem one_entry_per_key_broken:
  "one_entry_per_key tier_database
   \<and> fst (update_tier_list no_failure 5 [update_A, update_S] ''all'' ''all'' ''default''
            tier_database) = Inr ''Tier list updated successfully''
   \<and> \<not> one_entry_per_key
         (snd (update_tier_list no_failure 5 [update_A, update_S] ''all'' ''all'' ''default''
                 tier_database))"
  by (simp add: update_tier_list_def tier_database_def insert_entries_def generated_id_def
      dict_get_def same_key_def update_A_def update_S_def no_failure_def
      one_entry_per_key_def key_of_def)

end
